theory Spec2Isabelle
  imports
    Main
    "HOL-Library.Word"
    "HOL-Library.AList"
    "HOL-Library.Char_ord"
    "HOL-Library.List_Lexorder"
begin

section \<open>The Wavefront client of the Kubernetes adapter\<close>

text \<open>
  The development embeds package \<open>client\<close> of the adapter: the methods \<open>Do\<close>,
  \<open>ListMetrics\<close> and \<open>Query\<close> of \<open>DefaultWavefrontClient\<close>. Strings are byte
  strings (\<open>char list\<close>), as Go's are. Every call into the Go standard library is either
  written out (query escaping, \<open>url.Values\<close>, \<open>strconv.FormatInt\<close>) or, where it
  reaches the outside world or a large library (the network round trip, the JSON decoder,
  \<open>path.Join\<close>, \<open>URL.String\<close>, the validation of \<open>http.NewRequest\<close>), taken as
  a field of an environment record, so that every theorem holds for whatever these do.
  The calls to the logger have no effect on any result and are left out.
\<close>

subsection \<open>net/url: escaping of query components\<close>

text \<open>\<open>shouldEscape(c, encodeQueryComponent)\<close>: letters, digits and \<open>- _ . ~\<close> stay,
  everything else is escaped. \<open>inRange lo hi c\<close> is Go's \<open>lo <= c && c <= hi\<close> on bytes.\<close>

definition inRange :: "char \<Rightarrow> char \<Rightarrow> char \<Rightarrow> bool" where
  "inRange lo hi c = (lo \<le> c \<and> c \<le> hi)"

definition shouldEscape :: "char \<Rightarrow> bool" where
  "shouldEscape c =
     (if inRange CHR ''a'' CHR ''z'' c \<or> inRange CHR ''A'' CHR ''Z'' c \<or> inRange CHR ''0'' CHR ''9'' c
      then False
      else if c = CHR ''-'' \<or> c = CHR ''_'' \<or> c = CHR ''.'' \<or> c = CHR ''~'' then False
      else True)"

definition upperhex :: string where
  "upperhex = ''0123456789ABCDEF''"

text \<open>\<open>escape(s, encodeQueryComponent)\<close>, the body of \<open>url.QueryEscape\<close>: a space
  becomes \<open>+\<close>, a byte to escape becomes \<open>%\<close> and its two upper-case hex digits
  (\<open>c >> 4\<close> and \<open>c & 15\<close>).\<close>

fun QueryEscape :: "string \<Rightarrow> string" where
  "QueryEscape [] = []"
| "QueryEscape (c # s) =
     (if c = CHR '' '' then CHR ''+'' # QueryEscape s
      else if shouldEscape c
        then CHR ''%'' # upperhex ! (of_char c div 16) # upperhex ! (of_char c mod 16) # QueryEscape s
      else c # QueryEscape s)"

definition ishex :: "char \<Rightarrow> bool" where
  "ishex c =
     (inRange CHR ''0'' CHR ''9'' c \<or> inRange CHR ''a'' CHR ''f'' c \<or> inRange CHR ''A'' CHR ''F'' c)"

definition unhex :: "char \<Rightarrow> nat" where
  "unhex c =
     (if inRange CHR ''0'' CHR ''9'' c then of_char c - of_char CHR ''0''
      else if inRange CHR ''a'' CHR ''f'' c then of_char c - of_char CHR ''a'' + 10
      else if inRange CHR ''A'' CHR ''F'' c then of_char c - of_char CHR ''A'' + 10
      else 0)"

text \<open>\<open>unescape(s, encodeQueryComponent)\<close>, the body of \<open>url.QueryUnescape\<close>. Its
  first loop rejects a \<open>%\<close> that is not followed by two hex digits, with the
  \<open>EscapeError\<close> of at most three bytes from that position (\<open>Inl\<close>); its second loop
  builds the result. \<open>unhex(a)<<4 | unhex(b)\<close> is \<open>16 * unhex a + unhex b\<close>, both
  being below 16.\<close>

fun unescape_check :: "string \<Rightarrow> string option" where
  "unescape_check [] = None"
| "unescape_check (c # s) =
     (if c = CHR ''%''
      then (if length s < 2 \<or> \<not> ishex (s ! 0) \<or> \<not> ishex (s ! 1)
            then Some (take 3 (c # s))
            else unescape_check (drop 2 s))
      else unescape_check s)"

fun unescape_build :: "string \<Rightarrow> string" where
  "unescape_build [] = []"
| "unescape_build (c # s) =
     (if c = CHR ''%''
      then char_of (unhex (s ! 0) * 16 + unhex (s ! 1)) # unescape_build (drop 2 s)
      else if c = CHR ''+'' then CHR '' '' # unescape_build s
      else c # unescape_build s)"

definition QueryUnescape :: "string \<Rightarrow> string + string" where
  "QueryUnescape s =
     (case unescape_check s of Some e \<Rightarrow> Inl e | None \<Rightarrow> Inr (unescape_build s))"

subsection \<open>net/url: Values\<close>

text \<open>\<open>url.Values\<close> is \<open>map[string][]string\<close>: an association list with one entry
  for a key. \<open>v[k]\<close> of a missing key is the nil slice.\<close>

type_synonym Values = "(string \<times> string list) list"

definition Values_index :: "Values \<Rightarrow> string \<Rightarrow> string list" where
  "Values_index v k = (case map_of v k of None \<Rightarrow> [] | Some vs \<Rightarrow> vs)"

definition Values_Set :: "Values \<Rightarrow> string \<Rightarrow> string \<Rightarrow> Values" where
  "Values_Set v key val = AList.update key [val] v"

definition Values_Add :: "Values \<Rightarrow> string \<Rightarrow> string \<Rightarrow> Values" where
  "Values_Add v key val = AList.update key (Values_index v key @ [val]) v"

text \<open>\<open>Values.Encode\<close>: the keys are sorted, and every value of a key is written as
  \<open>key=value\<close>, both escaped, with \<open>&\<close> before it unless the buffer is empty.\<close>

definition Encode_write :: "string \<Rightarrow> string \<Rightarrow> string \<Rightarrow> string" where
  "Encode_write keyEscaped buf val =
     (if buf \<noteq> [] then buf @ ''&'' else buf) @ keyEscaped @ ''='' @ QueryEscape val"

definition Encode :: "Values \<Rightarrow> string" where
  "Encode v =
     (if v = [] then []
      else foldl (\<lambda>buf k. foldl (Encode_write (QueryEscape k)) buf (Values_index v k))
             [] (sort (map fst v)))"

text \<open>\<open>strings.Cut\<close> at a one-byte separator.\<close>

definition Cut :: "string \<Rightarrow> char \<Rightarrow> string \<times> string \<times> bool" where
  "Cut s sep = (takeWhile (\<lambda>c. c \<noteq> sep) s, drop 1 (dropWhile (\<lambda>c. c \<noteq> sep) s), sep \<in> set s)"

text \<open>\<open>parseQuery\<close>, the loop of \<open>url.ParseQuery\<close>: the query is cut at \<open>&\<close>
  as long as it is not empty. \<open>parseQuery_step\<close> is the body of the loop for one piece:
  the piece is cut at its first \<open>=\<close>; a piece with a semicolon or a bad escape is
  skipped and sets the error (the first bad escape wins, a semicolon overwrites).\<close>

definition parseQuery_step :: "Values \<Rightarrow> string option \<Rightarrow> string \<Rightarrow> Values \<times> string option" where
  "parseQuery_step m err key =
     (if CHR '';'' \<in> set key then (m, Some ''invalid semicolon separator in query'')
      else if key = [] then (m, err)
      else
        (case QueryUnescape (fst (Cut key CHR ''='')) of
           Inl e \<Rightarrow> (m, if err = None then Some e else err)
         | Inr key' \<Rightarrow>
            (case QueryUnescape (fst (snd (Cut key CHR ''=''))) of
               Inl e \<Rightarrow> (m, if err = None then Some e else err)
             | Inr val \<Rightarrow> (Values_Add m key' val, err))))"

function parseQuery :: "Values \<Rightarrow> string option \<Rightarrow> string \<Rightarrow> Values \<times> string option" where
  "parseQuery m err query =
     (if query = [] then (m, err)
      else
        (case parseQuery_step m err (fst (Cut query CHR ''&'')) of
           (m', err') \<Rightarrow> parseQuery m' err' (fst (snd (Cut query CHR ''&'')))))"
  by pat_completeness auto

termination parseQuery
proof -
  have shorter: "length (fst (snd (Cut query sep))) < length query" if "query \<noteq> []"
    for query :: string and sep
  proof -
    have "length (dropWhile (\<lambda>c. c \<noteq> sep) query) \<le> length query"
      by (rule length_dropWhile_le)
    with that show ?thesis
      by (cases query) (simp_all add: Cut_def)
  qed
  show ?thesis
    by (relation "measure (\<lambda>(m, err, query). length query)") (simp_all add: shorter)
qed

declare parseQuery.simps [simp del]

definition ParseQuery :: "string \<Rightarrow> Values \<times> string option" where
  "ParseQuery query = parseQuery [] None query"

subsection \<open>strconv and integer division\<close>

text \<open>\<open>strconv.FormatInt(i, 10)\<close>, which is also what \<open>%d\<close> prints: the decimal
  digits, after a minus sign for a negative number.\<close>

definition digit :: "nat \<Rightarrow> char" where
  "digit d = char_of (of_char CHR ''0'' + d)"

function formatBits :: "nat \<Rightarrow> string" where
  "formatBits n = (if n < 10 then [digit n] else formatBits (n div 10) @ [digit (n mod 10)])"
  by pat_completeness auto

termination formatBits
  by (relation "measure (\<lambda>n. n)") auto

declare formatBits.simps [simp del]

definition FormatInt :: "int \<Rightarrow> string" where
  "FormatInt i = (if i < 0 then CHR ''-'' # formatBits (nat (- i)) else formatBits (nat i))"

text \<open>The integer that a decimal string stands for, to say what \<open>FormatInt\<close> prints.\<close>

definition digit_value :: "char \<Rightarrow> nat" where
  "digit_value c = of_char c - of_char CHR ''0''"

definition decimal_value :: "string \<Rightarrow> nat" where
  "decimal_value s = foldl (\<lambda>a c. 10 * a + digit_value c) 0 s"

definition decimal_int :: "string \<Rightarrow> int" where
  "decimal_int s =
     (case s of
        [] \<Rightarrow> 0
      | c # ds \<Rightarrow> if c = CHR ''-'' then - int (decimal_value ds) else int (decimal_value s))"

text \<open>Go's \<open>/\<close> on integers truncates towards zero.\<close>

definition quo :: "int \<Rightarrow> int \<Rightarrow> int" where
  "quo a b = sgn a * sgn b * (\<bar>a\<bar> div \<bar>b\<bar>)"

subsection \<open>The data of the client\<close>

text \<open>\<open>url.URL\<close>, with the two fields \<open>Do\<close> writes and the two that say where the
  service is; its remaining fields are copied with the structure and only read by
  \<open>URL.String\<close>.\<close>

record URL =
  Scheme :: string
  Host :: string
  Path :: string
  RawQuery :: string

record DefaultWavefrontClient =
  baseURL :: URL
  token :: string

definition NewWavefrontClient :: "URL \<Rightarrow> string \<Rightarrow> DefaultWavefrontClient" where
  "NewWavefrontClient u t = \<lparr>baseURL = u, token = t\<rparr>"

text \<open>An \<open>http.Request\<close> without a body: the method, the URL as the string it was built
  from, and the header, a \<open>map[string][]string\<close> as \<open>Values\<close> is. \<open>Header.Set\<close>
  writes under the canonical form of the key, which \<open>Authorization\<close> is already.\<close>

record Request =
  Method :: string
  RequestURL :: string
  Header :: "(string \<times> string list) list"

definition Header_Set ::
  "(string \<times> string list) list \<Rightarrow> string \<Rightarrow> string \<Rightarrow> (string \<times> string list) list" where
  "Header_Set h key val = AList.update key [val] h"

definition Header_Values :: "(string \<times> string list) list \<Rightarrow> string \<Rightarrow> string list" where
  "Header_Values h key = (case map_of h key of None \<Rightarrow> [] | Some vs \<Rightarrow> vs)"

text \<open>An \<open>http.Response\<close> that a round trip produced: its body is there, as the bytes
  a reader gets from it.\<close>

record Response =
  Status :: string
  StatusCode :: int
  Body :: string

text \<open>What \<open>Do\<close> returns as \<open>*http.Response\<close>: nil, the empty
  \<open>&http.Response{}\<close> (whose body is nil), or a response of the round trip.\<close>

datatype ResponsePtr = NilResponse | EmptyResponse | Resp Response

text \<open>What \<open>client.Do\<close> returns: an error without a response, an error with a
  response (Go does so when a redirect is refused), or a response. Its errors are the
  library's own, kept as their text.\<close>

datatype RoundTrip = Failed string | FailedWith Response string | Answered Response

text \<open>The error kinds of the package are declared outside the file embedded here; the
  two it uses are \<open>ErrBadData\<close> and \<open>ErrBadResponse\<close>. An \<open>error\<close> value is the
  package's \<open>&Error{Type, Msg}\<close>, the plain error of \<open>fmt.Errorf\<close>, or an error of
  the standard library passed on.\<close>

datatype ErrorType = ErrBadData | ErrBadResponse

datatype error = Error ErrorType string | Errorf string | LibraryError string

text \<open>\<open>ListResult\<close> is declared outside the file too; \<open>ListMetrics\<close> reads its field
  \<open>Metrics\<close>, a \<open>[]string\<close>. \<open>QueryResult\<close> is a type parameter \<open>'q\<close>, with its
  zero value \<open>QueryResult{}\<close> in the environment.\<close>

record ListResult =
  Metrics :: "string list"

text \<open>The environment: what the standard library and the network do.
  \<^item> \<open>path_Join a b\<close> is \<open>path.Join(a, b)\<close>, \<open>URL_String u\<close> is \<open>u.String()\<close>;
  \<^item> \<open>NewRequest_error verb url\<close> is the error of \<open>http.NewRequest(verb, url, nil)\<close>,
    if it has one (an invalid method, a URL that does not parse);
  \<^item> \<open>client_Do req\<close> is the round trip of the shared \<open>http.Client\<close>, which has a
    timeout of ten seconds;
  \<^item> \<open>Decode_ListResult body\<close> and \<open>Decode_QueryResult body\<close> are
    \<open>json.NewDecoder(body).Decode(&result)\<close>: the text of the error, or the value
    decoded.\<close>

record 'q env =
  path_Join :: "string \<Rightarrow> string \<Rightarrow> string"
  URL_String :: "URL \<Rightarrow> string"
  NewRequest_error :: "string \<Rightarrow> string \<Rightarrow> string option"
  client_Do :: "Request \<Rightarrow> RoundTrip"
  Decode_ListResult :: "string \<Rightarrow> string + ListResult"
  Decode_QueryResult :: "string \<Rightarrow> string + 'q"
  QueryResult_zero :: "'q"

text \<open>What a call did, in order: a request handed to \<open>client.Do\<close>, a body handed to
  the JSON decoder, a call of \<open>Body.Close\<close>.\<close>

datatype event = Sent Request | JsonDecode Response | BodyClose Response

text \<open>A call returns its two results, or panics on a nil pointer.\<close>

datatype 'a outcome = Returns 'a "error option" | Panics

subsection \<open>The constants\<close>

definition authzHeader :: string where "authzHeader = ''Authorization''"
definition bearer :: string where "bearer = ''Bearer ''"
definition chartEndpoint :: string where "chartEndpoint = ''/api/v2/chart/api''"
definition metricsListEndpoint :: string where "metricsListEndpoint = ''/chart/metrics/list''"
definition queryKey :: string where "queryKey = ''q''"
definition startTime :: string where "startTime = ''s''"
definition granularity :: string where "granularity = ''g''"
definition outsideSeries :: string where "outsideSeries = ''i''"

subsection \<open>Do\<close>

text \<open>The URL \<open>Do\<close> builds: a copy of the base URL with the endpoint joined to its
  path and the encoded parameters as its query.\<close>

definition Do_url :: "'q env \<Rightarrow> DefaultWavefrontClient \<Rightarrow> string \<Rightarrow> Values \<Rightarrow> URL" where
  "Do_url env w endpoint query =
     (let u = baseURL w;
          u = u\<lparr>Path := path_Join env (Path u) endpoint\<rparr>;
          u = u\<lparr>RawQuery := Encode query\<rparr>
      in u)"

text \<open>The request \<open>Do\<close> hands to the HTTP client: what \<open>http.NewRequest\<close> made, with
  the authorization header set.\<close>

definition Do_request :: "'q env \<Rightarrow> DefaultWavefrontClient \<Rightarrow> string \<Rightarrow> string \<Rightarrow> Values \<Rightarrow> Request" where
  "Do_request env w verb endpoint query =
     (let req = \<lparr>Method = verb, RequestURL = URL_String env (Do_url env w endpoint query),
                 Header = []\<rparr>
      in req\<lparr>Header := Header_Set (Header req) authzHeader (bearer @ token w)\<rparr>)"

definition Do ::
  "'q env \<Rightarrow> DefaultWavefrontClient \<Rightarrow> string \<Rightarrow> string \<Rightarrow> Values
     \<Rightarrow> (ResponsePtr \<times> error option) \<times> event list" where
  "Do env w verb endpoint query =
     (case NewRequest_error env verb (URL_String env (Do_url env w endpoint query)) of
        Some e \<Rightarrow> ((EmptyResponse, Some (LibraryError e)), [])
      | None \<Rightarrow>
          let req = Do_request env w verb endpoint query in
          (case client_Do env req of
             Failed e \<Rightarrow> ((NilResponse, Some (LibraryError e)), [Sent req])
           | FailedWith resp e \<Rightarrow> ((Resp resp, Some (LibraryError e)), [Sent req])
           | Answered resp \<Rightarrow>
               let code = StatusCode resp in
               if quo code 100 \<noteq> 2
               then ((Resp resp,
                      Some (Errorf (''error status='' @ Status resp @ '' code='' @ FormatInt code))),
                     [Sent req])
               else ((Resp resp, None), [Sent req])))"

subsection \<open>ListMetrics and Query\<close>

text \<open>The parameters each method sets, in the order of its \<open>vals.Set\<close> calls.\<close>

definition ListMetrics_vals :: "string \<Rightarrow> Values" where
  "ListMetrics_vals prefix =
     (let vals = [];
          vals = Values_Set vals ''m'' prefix;
          vals = Values_Set vals ''l'' ''150''
      in vals)"

definition Query_vals :: "64 word \<Rightarrow> string \<Rightarrow> Values" where
  "Query_vals start query =
     (let vals = [];
          vals = Values_Set vals queryKey query;
          vals = Values_Set vals startTime (FormatInt (sint start));
          vals = Values_Set vals granularity ''m'';
          vals = Values_Set vals outsideSeries ''false''
      in vals)"

text \<open>After a call of \<open>Do\<close> without an error, both methods register the deferred
  \<open>resp.Body.Close()\<close>, decode the body, and return; the deferred call runs at the
  return. On a pointer without a response, reading \<open>resp.Body\<close> panics.\<close>

definition ListMetrics ::
  "'q env \<Rightarrow> DefaultWavefrontClient \<Rightarrow> string \<Rightarrow> string list outcome \<times> event list" where
  "ListMetrics env w prefix =
     (case Do env w ''GET'' metricsListEndpoint (ListMetrics_vals prefix) of
        ((resp, Some err), t) \<Rightarrow> (Returns [] (Some err), t)
      | ((resp, None), t) \<Rightarrow>
          (case resp of
             Resp r \<Rightarrow>
               (case Decode_ListResult env (Body r) of
                  Inl msg \<Rightarrow>
                    (Returns [] (Some (Error ErrBadResponse msg)),
                     t @ [JsonDecode r, BodyClose r])
                | Inr result \<Rightarrow>
                    (Returns (Metrics result) None, t @ [JsonDecode r, BodyClose r]))
           | _ \<Rightarrow> (Panics, t)))"

definition Query ::
  "'q env \<Rightarrow> DefaultWavefrontClient \<Rightarrow> 64 word \<Rightarrow> string \<Rightarrow> 'q outcome \<times> event list" where
  "Query env w start query =
     (if query = []
      then (Returns (QueryResult_zero env) (Some (Error ErrBadData ''empty query string'')), [])
      else
        (case Do env w ''GET'' chartEndpoint (Query_vals start query) of
           ((resp, Some err), t) \<Rightarrow> (Returns (QueryResult_zero env) (Some err), t)
         | ((resp, None), t) \<Rightarrow>
             (case resp of
                Resp r \<Rightarrow>
                  (case Decode_QueryResult env (Body r) of
                     Inl msg \<Rightarrow>
                       (Returns (QueryResult_zero env) (Some (Error ErrBadResponse msg)),
                        t @ [JsonDecode r, BodyClose r])
                   | Inr result \<Rightarrow> (Returns result None, t @ [JsonDecode r, BodyClose r]))
              | _ \<Rightarrow> (Panics, t))))"

subsection \<open>Notions of the statements\<close>

text \<open>What the network answers to a call of \<open>Do\<close>, if \<open>http.NewRequest\<close> lets the
  request out.\<close>

definition Do_round_trip ::
  "'q env \<Rightarrow> DefaultWavefrontClient \<Rightarrow> string \<Rightarrow> string \<Rightarrow> Values \<Rightarrow> RoundTrip option" where
  "Do_round_trip env w verb endpoint query =
     (case NewRequest_error env verb (URL_String env (Do_url env w endpoint query)) of
        Some e \<Rightarrow> None
      | None \<Rightarrow> Some (client_Do env (Do_request env w verb endpoint query)))"


text \<open>The text of the status error.\<close>

definition status_text :: "Response \<Rightarrow> string" where
  "status_text resp = ''error status='' @ Status resp @ '' code='' @ FormatInt (StatusCode resp)"



text \<open>To pick from a trace the calls of \<open>Body.Close\<close> and the requests sent.\<close>

fun is_BodyClose :: "event \<Rightarrow> bool" where
  "is_BodyClose (BodyClose r) = True"
| "is_BodyClose _ = False"

fun is_Sent :: "event \<Rightarrow> bool" where
  "is_Sent (Sent r) = True"
| "is_Sent _ = False"

subsection \<open>A client and environments to run it in\<close>

text \<open>A client of the service at \<open>https://example.wavefront.com\<close>, and an environment
  around a given answer of the network: every request is let out, paths are joined
  and URLs printed in the plain way, and the decoders know one body each.\<close>

definition example_client :: DefaultWavefrontClient where
  "example_client =
     NewWavefrontClient
       \<lparr>Scheme = ''https'', Host = ''example.wavefront.com'', Path = [], RawQuery = []\<rparr>
       ''s3cr3t''"

definition metrics_body :: string where
  \<open>metrics_body = ''{"metrics":["cpu.load","cpu.idle"]}''\<close>

definition example_env :: "RoundTrip \<Rightarrow> (string \<times> int) list env" where
  \<open>example_env answer =
     \<lparr>path_Join = (\<lambda>a b. a @ b),
      URL_String = (\<lambda>u. Scheme u @ ''://'' @ Host u @ Path u @ ''?'' @ RawQuery u),
      NewRequest_error = (\<lambda>verb url. None),
      client_Do = (\<lambda>req. answer),
      Decode_ListResult =
        (\<lambda>body. if body = metrics_body then Inr \<lparr>Metrics = [''cpu.load'', ''cpu.idle'']\<rparr>
                 else Inl ''unexpected end of JSON input''),
      Decode_QueryResult =
        (\<lambda>body. if body = ''[["cpu.load",7]]'' then Inr [(''cpu.load'', 7)]
                 else Inl ''unexpected end of JSON input''),
      QueryResult_zero = []\<rparr>\<close>

definition ok_response :: "string \<Rightarrow> Response" where
  "ok_response body = \<lparr>Status = ''200 OK'', StatusCode = 200, Body = body\<rparr>"

definition error_response :: Response where
  "error_response =
     \<lparr>Status = ''500 Internal Server Error'', StatusCode = 500, Body = ''overloaded''\<rparr>"

text \<open>The requests that client sends for the prefix \<open>cpu.\<close> and for the query
  \<open>ts(cpu.load)\<close> from second 60.\<close>

definition list_request :: Request where
  "list_request =
     \<lparr>Method = ''GET'',
      RequestURL = ''https://example.wavefront.com/chart/metrics/list?l=150&m=cpu.'',
      Header = [(''Authorization'', [''Bearer s3cr3t''])]\<rparr>"

definition query_request :: Request where
  "query_request =
     \<lparr>Method = ''GET'',
      RequestURL =
        ''https://example.wavefront.com/api/v2/chart/api?g=m&i=false&q=ts%28cpu.load%29&s=60'',
      Header = [(''Authorization'', [''Bearer s3cr3t''])]\<rparr>"

section \<open>Properties\<close>

subsection \<open>Escaping and unescaping\<close>

lemma upperhex_digits:
  "\<forall>n \<in> set [0..<16].
     ishex (upperhex ! n) \<and> unhex (upperhex ! n) = n \<and>
     upperhex ! n \<notin> {CHR ''&'', CHR ''='', CHR '';'', CHR ''%'', CHR ''+''}"
  by code_simp

lemma upperhex_ishex: "n < 16 \<Longrightarrow> ishex (upperhex ! n)"
  using upperhex_digits by simp

lemma upperhex_unhex: "n < 16 \<Longrightarrow> unhex (upperhex ! n) = n"
  using upperhex_digits by simp

lemma upperhex_plain:
  "n < 16 \<Longrightarrow> upperhex ! n \<notin> {CHR ''&'', CHR ''='', CHR '';'', CHR ''%'', CHR ''+''}"
  using upperhex_digits by simp

lemma of_char_lt_256: "of_char c < (256::nat)"
  by (metis of_char_mod_256 mod_less_divisor zero_less_numeral)

lemma char_hi: "of_char c div 16 < (16::nat)"
  using of_char_lt_256 [of c] by arith

lemma char_lo: "of_char c mod 16 < (16::nat)"
  by simp

lemma char_of_hi_lo: "char_of (of_char c div 16 * 16 + of_char c mod 16 :: nat) = c"
  by simp

lemma not_shouldEscape_plain:
  "\<not> shouldEscape c \<Longrightarrow> c \<notin> {CHR ''&'', CHR ''='', CHR '';'', CHR ''%'', CHR ''+''}"
  by (auto simp: shouldEscape_def inRange_def)

lemma unescape_check_percent:
  "ishex a \<Longrightarrow> ishex b \<Longrightarrow> unescape_check (CHR ''%'' # a # b # s) = unescape_check s"
  by simp

lemma unescape_build_percent:
  "unescape_build (CHR ''%'' # a # b # s) = char_of (unhex a * 16 + unhex b) # unescape_build s"
  by simp

lemma unescape_check_QueryEscape: "unescape_check (QueryEscape s) = None"
proof (induction s)
  case Nil
  show ?case by simp
next
  case (Cons c s)
  show ?case
  proof (cases "c = CHR '' ''")
    case True
    with Cons show ?thesis by simp
  next
    case False
    show ?thesis
    proof (cases "shouldEscape c")
      case True
      have "QueryEscape (c # s) =
          CHR ''%'' # upperhex ! (of_char c div 16) # upperhex ! (of_char c mod 16) # QueryEscape s"
        using False True by simp
      with Cons show ?thesis
        by (simp only: unescape_check_percent [OF upperhex_ishex [OF char_hi] upperhex_ishex [OF char_lo]])
    next
      case esc: False
      then have "c \<noteq> CHR ''%''"
        using not_shouldEscape_plain [of c] by auto
      with False esc Cons show ?thesis by simp
    qed
  qed
qed

lemma unescape_build_QueryEscape: "unescape_build (QueryEscape s) = s"
proof (induction s)
  case Nil
  show ?case by simp
next
  case (Cons c s)
  show ?case
  proof (cases "c = CHR '' ''")
    case True
    with Cons show ?thesis by simp
  next
    case False
    show ?thesis
    proof (cases "shouldEscape c")
      case True
      have "QueryEscape (c # s) =
          CHR ''%'' # upperhex ! (of_char c div 16) # upperhex ! (of_char c mod 16) # QueryEscape s"
        using False True by simp
      with Cons show ?thesis
        by (simp only: unescape_build_percent upperhex_unhex [OF char_hi] upperhex_unhex [OF char_lo]
              char_of_hi_lo)
    next
      case esc: False
      then have "c \<noteq> CHR ''%''" "c \<noteq> CHR ''+''"
        using not_shouldEscape_plain [of c] by auto
      with False esc Cons show ?thesis by simp
    qed
  qed
qed

lemma QueryUnescape_QueryEscape: "QueryUnescape (QueryEscape s) = Inr s"
  by (simp add: QueryUnescape_def unescape_check_QueryEscape unescape_build_QueryEscape)

lemma QueryEscape_plain:
  "x \<in> set (QueryEscape s) \<Longrightarrow> x \<noteq> CHR ''&'' \<and> x \<noteq> CHR ''='' \<and> x \<noteq> CHR '';''"
proof (induction s)
  case Nil
  then show ?case by simp
next
  case (Cons c s)
  have hi: "upperhex ! (of_char c div 16) \<notin> {CHR ''&'', CHR ''='', CHR '';'', CHR ''%'', CHR ''+''}"
    by (rule upperhex_plain [OF char_hi])
  have lo: "upperhex ! (of_char c mod 16) \<notin> {CHR ''&'', CHR ''='', CHR '';'', CHR ''%'', CHR ''+''}"
    by (rule upperhex_plain [OF char_lo])
  show ?case
  proof (cases "c = CHR '' ''")
    case True
    with Cons show ?thesis by auto
  next
    case False
    show ?thesis
    proof (cases "shouldEscape c")
      case True
      with False Cons hi lo show ?thesis by auto
    next
      case esc: False
      with False Cons not_shouldEscape_plain [of c] show ?thesis by auto
    qed
  qed
qed


subsection \<open>Encoding and parsing a query\<close>

lemma Cut_absent: "sep \<notin> set s \<Longrightarrow> Cut s sep = (s, [], False)"
proof -
  assume a: "sep \<notin> set s"
  then have tw: "takeWhile (\<lambda>c. c \<noteq> sep) s = s" and dw: "dropWhile (\<lambda>c. c \<noteq> sep) s = []"
    by auto
  show ?thesis by (simp only: Cut_def tw dw) (simp add: a)
qed

lemma Cut_present: "sep \<notin> set s \<Longrightarrow> Cut (s @ sep # t) sep = (s, t, True)"
proof -
  assume "sep \<notin> set s"
  then have "\<forall>c\<in>set s. c \<noteq> sep" by auto
  then show ?thesis by (simp add: Cut_def)
qed

lemma Cut_append:
  "sep \<in> set s \<Longrightarrow>
   fst (Cut (s @ sep # t) sep) = fst (Cut s sep) \<and>
   fst (snd (Cut (s @ sep # t) sep)) = fst (snd (Cut s sep)) @ sep # t"
proof -
  assume a: "sep \<in> set s"
  then have ne: "dropWhile (\<lambda>c. c \<noteq> sep) s \<noteq> []"
    by auto
  from a have "takeWhile (\<lambda>c. c \<noteq> sep) (s @ sep # t) = takeWhile (\<lambda>c. c \<noteq> sep) s"
    by (intro takeWhile_append1 [where x = sep]) simp_all
  moreover from a have "dropWhile (\<lambda>c. c \<noteq> sep) (s @ sep # t) = dropWhile (\<lambda>c. c \<noteq> sep) s @ sep # t"
    by (intro dropWhile_append1 [where x = sep]) simp_all
  ultimately show ?thesis using ne
    by (cases "dropWhile (\<lambda>c. c \<noteq> sep) s") (simp_all add: Cut_def)
qed

lemma parseQuery_Nil: "parseQuery m err [] = (m, err)"
  by (simp add: parseQuery.simps)

lemma parseQuery_Cons:
  "query \<noteq> [] \<Longrightarrow> parseQuery_step m err (fst (Cut query CHR ''&'')) = (m', err') \<Longrightarrow>
   parseQuery m err query = parseQuery m' err' (fst (snd (Cut query CHR ''&'')))"
  by (subst parseQuery.simps) simp

lemma parseQuery_append:
  "parseQuery m err (s @ CHR ''&'' # t) =
     (case parseQuery m err s of (m', err') \<Rightarrow> parseQuery m' err' t)"
proof (induction m err s rule: parseQuery.induct)
  case (1 m err query)
  show ?case
  proof (cases "query = []")
    case True
    have "Cut (CHR ''&'' # t) CHR ''&'' = ([], t, True)"
      using Cut_present [of "CHR ''&''" "[]" t] by simp
    then have "parseQuery m err (CHR ''&'' # t) = parseQuery m err t"
      by (subst parseQuery_Cons [where m' = m and err' = err]) (simp_all add: parseQuery_step_def)
    with True show ?thesis by (simp add: parseQuery_Nil)
  next
    case ne: False
    obtain m' err' where step: "parseQuery_step m err (fst (Cut query CHR ''&'')) = (m', err')"
      by (cases "parseQuery_step m err (fst (Cut query CHR ''&''))")
    have rhs: "parseQuery m err query = parseQuery m' err' (fst (snd (Cut query CHR ''&'')))"
      using ne step by (rule parseQuery_Cons)
    show ?thesis
    proof (cases "CHR ''&'' \<in> set query")
      case True
      note c = Cut_append [OF True, of t]
      have "parseQuery m err (query @ CHR ''&'' # t) =
              parseQuery m' err' (fst (snd (Cut query CHR ''&'')) @ CHR ''&'' # t)"
        using step c by (subst parseQuery_Cons [where m' = m' and err' = err']) simp_all
      also have "\<dots> = (case parseQuery m' err' (fst (snd (Cut query CHR ''&''))) of
                         (m'', err'') \<Rightarrow> parseQuery m'' err'' t)"
        using "1.IH" [OF ne step [symmetric]] by simp
      finally show ?thesis using rhs by simp
    next
      case False
      have "parseQuery m err (query @ CHR ''&'' # t) = parseQuery m' err' t"
        using step Cut_present [OF False, of t] Cut_absent [OF False]
        by (subst parseQuery_Cons [where m' = m' and err' = err']) simp_all
      moreover have "parseQuery m err query = (m', err')"
        using rhs Cut_absent [OF False] by (simp add: parseQuery_Nil)
      ultimately show ?thesis by simp
    qed
  qed
qed


lemma parseQuery_step_piece:
  "parseQuery_step m err (QueryEscape k @ CHR ''='' # QueryEscape x) = (Values_Add m k x, err)"
proof -
  let ?p = "QueryEscape k @ CHR ''='' # QueryEscape x"
  have semi: "CHR '';'' \<notin> set ?p"
    using QueryEscape_plain [of "CHR '';''" k] QueryEscape_plain [of "CHR '';''" x] by auto
  have "CHR ''='' \<notin> set (QueryEscape k)"
    using QueryEscape_plain [of "CHR ''=''" k] by auto
  then have cut: "Cut ?p CHR ''='' = (QueryEscape k, QueryEscape x, True)"
    by (rule Cut_present)
  show ?thesis
    using semi by (simp add: parseQuery_step_def cut QueryUnescape_QueryEscape)
qed

lemma parseQuery_piece:
  "parseQuery m err (QueryEscape k @ CHR ''='' # QueryEscape x) = (Values_Add m k x, err)"
proof -
  let ?p = "QueryEscape k @ CHR ''='' # QueryEscape x"
  have "CHR ''&'' \<notin> set ?p"
    using QueryEscape_plain [of "CHR ''&''" k] QueryEscape_plain [of "CHR ''&''" x] by auto
  then have cut: "Cut ?p CHR ''&'' = (?p, [], False)"
    by (rule Cut_absent)
  have "parseQuery m err ?p = parseQuery (Values_Add m k x) err []"
    by (subst parseQuery_Cons [where m' = "Values_Add m k x" and err' = err])
       (simp_all add: cut parseQuery_step_piece)
  then show ?thesis by (simp add: parseQuery_Nil)
qed

lemma parseQuery_Encode_write:
  assumes "parseQuery [] None buf = (m, None)" and "buf = [] \<Longrightarrow> m = []"
  shows "parseQuery [] None (Encode_write (QueryEscape k) buf x) = (Values_Add m k x, None)"
proof (cases "buf = []")
  case True
  with assms show ?thesis
    by (simp add: Encode_write_def parseQuery_piece)
next
  case False
  then have "Encode_write (QueryEscape k) buf x =
      buf @ CHR ''&'' # (QueryEscape k @ CHR ''='' # QueryEscape x)"
    by (simp add: Encode_write_def)
  then show ?thesis
    using assms(1) by (simp only: parseQuery_append) (simp add: parseQuery_piece)
qed

lemma Encode_write_nonempty: "Encode_write ke buf x \<noteq> []"
  by (simp add: Encode_write_def)

lemma parseQuery_Encode_values:
  assumes "parseQuery [] None buf = (m, None)" and "buf = [] \<Longrightarrow> m = []"
  shows "parseQuery [] None (foldl (Encode_write (QueryEscape k)) buf xs) =
           (foldl (\<lambda>m x. Values_Add m k x) m xs, None) \<and>
         (foldl (Encode_write (QueryEscape k)) buf xs = [] \<longrightarrow>
            foldl (\<lambda>m x. Values_Add m k x) m xs = [])"
  using assms
proof (induction xs arbitrary: buf m)
  case Nil
  then show ?case by auto
next
  case (Cons x xs)
  have "parseQuery [] None (Encode_write (QueryEscape k) buf x) = (Values_Add m k x, None)"
    using Cons.prems by (rule parseQuery_Encode_write)
  then show ?case
    using Cons.IH [of "Encode_write (QueryEscape k) buf x" "Values_Add m k x"]
    by (simp add: Encode_write_nonempty)
qed

lemma parseQuery_Encode_keys:
  assumes "parseQuery [] None buf = (m, None)" and "buf = [] \<Longrightarrow> m = []"
  shows "parseQuery [] None
           (foldl (\<lambda>buf k. foldl (Encode_write (QueryEscape k)) buf (Values_index v k)) buf ks) =
         (foldl (\<lambda>m k. foldl (\<lambda>m x. Values_Add m k x) m (Values_index v k)) m ks, None)"
  using assms
proof (induction ks arbitrary: buf m)
  case Nil
  then show ?case by simp
next
  case (Cons k ks)
  note step = parseQuery_Encode_values [OF Cons.prems, of k "Values_index v k"]
  show ?case
    using Cons.IH [of "foldl (Encode_write (QueryEscape k)) buf (Values_index v k)"
                      "foldl (\<lambda>m x. Values_Add m k x) m (Values_index v k)"] step
    by simp
qed

lemma ParseQuery_Encode_eq:
  "ParseQuery (Encode v) =
     (foldl (\<lambda>m k. foldl (\<lambda>m x. Values_Add m k x) m (Values_index v k)) [] (sort (map fst v)), None)"
proof (cases "v = []")
  case True
  then show ?thesis by (simp add: ParseQuery_def Encode_def parseQuery_Nil)
next
  case False
  have "parseQuery [] None [] = ([], None)" by (rule parseQuery_Nil)
  then show ?thesis
    using False parseQuery_Encode_keys [of "[]" "[]" v "sort (map fst v)"]
    by (simp add: ParseQuery_def Encode_def)
qed

lemma Values_index_Add:
  "Values_index (Values_Add m k x) k' = (if k' = k then Values_index m k @ [x] else Values_index m k')"
  by (simp add: Values_index_def Values_Add_def update_conv')

lemma Values_index_Add_values:
  "Values_index (foldl (\<lambda>m x. Values_Add m k x) m xs) k' =
     (if k' = k then Values_index m k @ xs else Values_index m k')"
  by (induction xs arbitrary: m) (simp_all add: Values_index_Add)

lemma Values_index_Add_keys:
  "distinct ks \<Longrightarrow>
   Values_index (foldl (\<lambda>m k. foldl (\<lambda>m x. Values_Add m k x) m (Values_index v k)) m ks) k' =
     (if k' \<in> set ks then Values_index m k' @ Values_index v k' else Values_index m k')"
  by (induction ks arbitrary: m) (auto simp: Values_index_Add_values)

lemma Values_index_absent: "k \<notin> fst ` set v \<Longrightarrow> Values_index v k = []"
proof -
  assume "k \<notin> fst ` set v"
  then have "map_of v k = None"
    by (simp add: map_of_eq_None_iff)
  then show ?thesis by (simp add: Values_index_def)
qed

lemma ParseQuery_Encode:
  assumes "distinct (map fst v)"
  shows "snd (ParseQuery (Encode v)) = None"
    and "Values_index (fst (ParseQuery (Encode v))) k = Values_index v k"
proof -
  show "snd (ParseQuery (Encode v)) = None"
    by (simp add: ParseQuery_Encode_eq)
  have "distinct (sort (map fst v))"
    using assms by simp
  then show "Values_index (fst (ParseQuery (Encode v))) k = Values_index v k"
    by (simp add: ParseQuery_Encode_eq Values_index_Add_keys Values_index_absent)
qed

subsection \<open>What Do returns\<close>

lemma quo_100_eq_2: "quo code 100 = 2 \<longleftrightarrow> 200 \<le> code \<and> code \<le> 299"
proof (cases "code < 0")
  case True
  then have "quo code 100 = - (\<bar>code\<bar> div 100)"
    by (simp add: quo_def)
  moreover have "0 \<le> \<bar>code\<bar> div 100"
    by simp
  ultimately show ?thesis using True by linarith
next
  case False
  then have "quo code 100 = code div 100"
    by (cases "code = 0") (simp_all add: quo_def)
  then show ?thesis using False by (simp, arith)
qed

lemma Do_rejected:
  "NewRequest_error env verb (URL_String env (Do_url env w endpoint query)) = Some e \<Longrightarrow>
   Do env w verb endpoint query = ((EmptyResponse, Some (LibraryError e)), [])"
  by (simp add: Do_def)

lemma Do_round_trip_None:
  "Do_round_trip env w verb endpoint query = None \<longleftrightarrow>
   NewRequest_error env verb (URL_String env (Do_url env w endpoint query)) \<noteq> None"
  by (simp add: Do_round_trip_def split: option.splits)

lemma Do_Failed:
  "Do_round_trip env w verb endpoint query = Some (Failed e) \<Longrightarrow>
   Do env w verb endpoint query =
     ((NilResponse, Some (LibraryError e)), [Sent (Do_request env w verb endpoint query)])"
  by (simp add: Do_def Do_round_trip_def split: option.splits)

lemma Do_FailedWith:
  "Do_round_trip env w verb endpoint query = Some (FailedWith resp e) \<Longrightarrow>
   Do env w verb endpoint query =
     ((Resp resp, Some (LibraryError e)), [Sent (Do_request env w verb endpoint query)])"
  by (simp add: Do_def Do_round_trip_def split: option.splits)

lemma Do_Answered_error:
  "Do_round_trip env w verb endpoint query = Some (Answered resp) \<Longrightarrow>
   \<not> (200 \<le> StatusCode resp \<and> StatusCode resp \<le> 299) \<Longrightarrow>
   Do env w verb endpoint query =
     ((Resp resp, Some (Errorf (status_text resp))), [Sent (Do_request env w verb endpoint query)])"
  by (simp add: Do_def Do_round_trip_def quo_100_eq_2 status_text_def split: option.splits)

lemma Do_Answered_ok:
  "Do_round_trip env w verb endpoint query = Some (Answered resp) \<Longrightarrow>
   200 \<le> StatusCode resp \<and> StatusCode resp \<le> 299 \<Longrightarrow>
   Do env w verb endpoint query =
     ((Resp resp, None), [Sent (Do_request env w verb endpoint query)])"
  by (simp add: Do_def Do_round_trip_def quo_100_eq_2 split: option.splits)

lemma Do_trace:
  "snd (Do env w verb endpoint query) =
     (if NewRequest_error env verb (URL_String env (Do_url env w endpoint query)) = None
      then [Sent (Do_request env w verb endpoint query)] else [])"
  by (simp add: Do_def Let_def split: option.splits RoundTrip.splits)

lemma Do_no_error_response:
  "Do env w verb endpoint query = ((resp, None), t) \<Longrightarrow>
   \<exists>r. resp = Resp r \<and> Do_round_trip env w verb endpoint query = Some (Answered r) \<and>
       200 \<le> StatusCode r \<and> StatusCode r \<le> 299 \<and>
       t = [Sent (Do_request env w verb endpoint query)]"
  by (auto simp: Do_def Do_round_trip_def Let_def quo_100_eq_2
           split: option.splits RoundTrip.splits if_splits)

subsection \<open>What ListMetrics and Query return\<close>

lemma ListMetrics_rejected:
  "NewRequest_error env ''GET''
     (URL_String env (Do_url env w metricsListEndpoint (ListMetrics_vals prefix))) = Some e \<Longrightarrow>
   ListMetrics env w prefix = (Returns [] (Some (LibraryError e)), [])"
  by (simp add: ListMetrics_def Do_rejected)

lemma ListMetrics_Failed:
  "Do_round_trip env w ''GET'' metricsListEndpoint (ListMetrics_vals prefix) = Some (Failed e) \<Longrightarrow>
   ListMetrics env w prefix =
     (Returns [] (Some (LibraryError e)),
      [Sent (Do_request env w ''GET'' metricsListEndpoint (ListMetrics_vals prefix))])"
  by (simp add: ListMetrics_def Do_Failed)

lemma ListMetrics_FailedWith:
  "Do_round_trip env w ''GET'' metricsListEndpoint (ListMetrics_vals prefix) =
     Some (FailedWith resp e) \<Longrightarrow>
   ListMetrics env w prefix =
     (Returns [] (Some (LibraryError e)),
      [Sent (Do_request env w ''GET'' metricsListEndpoint (ListMetrics_vals prefix))])"
  by (simp add: ListMetrics_def Do_FailedWith)

lemma ListMetrics_status_error:
  "Do_round_trip env w ''GET'' metricsListEndpoint (ListMetrics_vals prefix) =
     Some (Answered resp) \<Longrightarrow>
   \<not> (200 \<le> StatusCode resp \<and> StatusCode resp \<le> 299) \<Longrightarrow>
   ListMetrics env w prefix =
     (Returns [] (Some (Errorf (status_text resp))),
      [Sent (Do_request env w ''GET'' metricsListEndpoint (ListMetrics_vals prefix))])"
  by (simp add: ListMetrics_def Do_Answered_error)

lemma ListMetrics_decoded:
  "Do_round_trip env w ''GET'' metricsListEndpoint (ListMetrics_vals prefix) =
     Some (Answered resp) \<Longrightarrow>
   200 \<le> StatusCode resp \<and> StatusCode resp \<le> 299 \<Longrightarrow>
   ListMetrics env w prefix =
     ((case Decode_ListResult env (Body resp) of
         Inl msg \<Rightarrow> Returns [] (Some (Error ErrBadResponse msg))
       | Inr result \<Rightarrow> Returns (Metrics result) None),
      [Sent (Do_request env w ''GET'' metricsListEndpoint (ListMetrics_vals prefix)),
       JsonDecode resp, BodyClose resp])"
  by (simp add: ListMetrics_def Do_Answered_ok split: sum.splits)

lemma Query_rejected:
  "query \<noteq> [] \<Longrightarrow>
   NewRequest_error env ''GET''
     (URL_String env (Do_url env w chartEndpoint (Query_vals ts query))) = Some e \<Longrightarrow>
   Query env w ts query = (Returns (QueryResult_zero env) (Some (LibraryError e)), [])"
  by (simp add: Query_def Do_rejected)

lemma Query_Failed:
  "query \<noteq> [] \<Longrightarrow>
   Do_round_trip env w ''GET'' chartEndpoint (Query_vals ts query) = Some (Failed e) \<Longrightarrow>
   Query env w ts query =
     (Returns (QueryResult_zero env) (Some (LibraryError e)),
      [Sent (Do_request env w ''GET'' chartEndpoint (Query_vals ts query))])"
  by (simp add: Query_def Do_Failed)

lemma Query_FailedWith:
  "query \<noteq> [] \<Longrightarrow>
   Do_round_trip env w ''GET'' chartEndpoint (Query_vals ts query) = Some (FailedWith resp e) \<Longrightarrow>
   Query env w ts query =
     (Returns (QueryResult_zero env) (Some (LibraryError e)),
      [Sent (Do_request env w ''GET'' chartEndpoint (Query_vals ts query))])"
  by (simp add: Query_def Do_FailedWith)

lemma Query_status_error:
  "query \<noteq> [] \<Longrightarrow>
   Do_round_trip env w ''GET'' chartEndpoint (Query_vals ts query) = Some (Answered resp) \<Longrightarrow>
   \<not> (200 \<le> StatusCode resp \<and> StatusCode resp \<le> 299) \<Longrightarrow>
   Query env w ts query =
     (Returns (QueryResult_zero env) (Some (Errorf (status_text resp))),
      [Sent (Do_request env w ''GET'' chartEndpoint (Query_vals ts query))])"
  by (simp add: Query_def Do_Answered_error)

lemma Query_decoded:
  "query \<noteq> [] \<Longrightarrow>
   Do_round_trip env w ''GET'' chartEndpoint (Query_vals ts query) = Some (Answered resp) \<Longrightarrow>
   200 \<le> StatusCode resp \<and> StatusCode resp \<le> 299 \<Longrightarrow>
   Query env w ts query =
     ((case Decode_QueryResult env (Body resp) of
         Inl msg \<Rightarrow> Returns (QueryResult_zero env) (Some (Error ErrBadResponse msg))
       | Inr result \<Rightarrow> Returns result None),
      [Sent (Do_request env w ''GET'' chartEndpoint (Query_vals ts query)),
       JsonDecode resp, BodyClose resp])"
  by (simp add: Query_def Do_Answered_ok split: sum.splits)

text \<open>The cases above are all there are.\<close>

lemma Do_round_trip_cases:
  obtains e where "NewRequest_error env verb (URL_String env (Do_url env w endpoint query)) = Some e"
  | e where "Do_round_trip env w verb endpoint query = Some (Failed e)"
  | resp e where "Do_round_trip env w verb endpoint query = Some (FailedWith resp e)"
  | resp where "Do_round_trip env w verb endpoint query = Some (Answered resp)"
      and "\<not> (200 \<le> StatusCode resp \<and> StatusCode resp \<le> 299)"
  | resp where "Do_round_trip env w verb endpoint query = Some (Answered resp)"
      and "200 \<le> StatusCode resp \<and> StatusCode resp \<le> 299"
proof (cases "NewRequest_error env verb (URL_String env (Do_url env w endpoint query))")
  case (Some e)
  then show ?thesis by (rule that(1))
next
  case None
  then have rt: "Do_round_trip env w verb endpoint query =
      Some (client_Do env (Do_request env w verb endpoint query))"
    by (simp add: Do_round_trip_def)
  show ?thesis
  proof (cases "client_Do env (Do_request env w verb endpoint query)")
    case (Failed e)
    with rt show ?thesis by (simp add: that(2))
  next
    case (FailedWith resp e)
    with rt show ?thesis by (simp add: that(3))
  next
    case (Answered resp)
    with rt show ?thesis
      by (cases "200 \<le> StatusCode resp \<and> StatusCode resp \<le> 299") (simp_all add: that(4,5))
  qed
qed

lemma ListMetrics_cases:
  obtains
    (rejected) e where
      "NewRequest_error env ''GET''
         (URL_String env (Do_url env w metricsListEndpoint (ListMetrics_vals prefix))) = Some e"
      "ListMetrics env w prefix = (Returns [] (Some (LibraryError e)), [])"
  | (failed) e where
      "Do_round_trip env w ''GET'' metricsListEndpoint (ListMetrics_vals prefix) = Some (Failed e)"
      "ListMetrics env w prefix =
         (Returns [] (Some (LibraryError e)),
          [Sent (Do_request env w ''GET'' metricsListEndpoint (ListMetrics_vals prefix))])"
  | (failed_with) resp e where
      "Do_round_trip env w ''GET'' metricsListEndpoint (ListMetrics_vals prefix) =
         Some (FailedWith resp e)"
      "ListMetrics env w prefix =
         (Returns [] (Some (LibraryError e)),
          [Sent (Do_request env w ''GET'' metricsListEndpoint (ListMetrics_vals prefix))])"
  | (status) resp where
      "Do_round_trip env w ''GET'' metricsListEndpoint (ListMetrics_vals prefix) =
         Some (Answered resp)"
      "\<not> (200 \<le> StatusCode resp \<and> StatusCode resp \<le> 299)"
      "ListMetrics env w prefix =
         (Returns [] (Some (Errorf (status_text resp))),
          [Sent (Do_request env w ''GET'' metricsListEndpoint (ListMetrics_vals prefix))])"
  | (undecoded) resp msg where
      "Do_round_trip env w ''GET'' metricsListEndpoint (ListMetrics_vals prefix) =
         Some (Answered resp)"
      "200 \<le> StatusCode resp \<and> StatusCode resp \<le> 299"
      "Decode_ListResult env (Body resp) = Inl msg"
      "ListMetrics env w prefix =
         (Returns [] (Some (Error ErrBadResponse msg)),
          [Sent (Do_request env w ''GET'' metricsListEndpoint (ListMetrics_vals prefix)),
           JsonDecode resp, BodyClose resp])"
  | (decoded) resp result where
      "Do_round_trip env w ''GET'' metricsListEndpoint (ListMetrics_vals prefix) =
         Some (Answered resp)"
      "200 \<le> StatusCode resp \<and> StatusCode resp \<le> 299"
      "Decode_ListResult env (Body resp) = Inr result"
      "ListMetrics env w prefix =
         (Returns (Metrics result) None,
          [Sent (Do_request env w ''GET'' metricsListEndpoint (ListMetrics_vals prefix)),
           JsonDecode resp, BodyClose resp])"
proof (rule Do_round_trip_cases [of env "''GET''" w metricsListEndpoint "ListMetrics_vals prefix"])
  fix e
  assume a: "NewRequest_error env ''GET''
     (URL_String env (Do_url env w metricsListEndpoint (ListMetrics_vals prefix))) = Some e"
  show thesis by (rule rejected [OF a ListMetrics_rejected [OF a]])
next
  fix e
  assume a: "Do_round_trip env w ''GET'' metricsListEndpoint (ListMetrics_vals prefix) = Some (Failed e)"
  show thesis by (rule failed [OF a ListMetrics_Failed [OF a]])
next
  fix resp e
  assume a: "Do_round_trip env w ''GET'' metricsListEndpoint (ListMetrics_vals prefix) =
    Some (FailedWith resp e)"
  show thesis by (rule failed_with [OF a ListMetrics_FailedWith [OF a]])
next
  fix resp
  assume a: "Do_round_trip env w ''GET'' metricsListEndpoint (ListMetrics_vals prefix) =
    Some (Answered resp)" and b: "\<not> (200 \<le> StatusCode resp \<and> StatusCode resp \<le> 299)"
  show thesis by (rule status [OF a b ListMetrics_status_error [OF a b]])
next
  fix resp
  assume a: "Do_round_trip env w ''GET'' metricsListEndpoint (ListMetrics_vals prefix) =
    Some (Answered resp)" and b: "200 \<le> StatusCode resp \<and> StatusCode resp \<le> 299"
  note d = ListMetrics_decoded [OF a b]
  show thesis
  proof (cases "Decode_ListResult env (Body resp)")
    case (Inl msg)
    with d show ?thesis by (intro undecoded [OF a b Inl]) simp
  next
    case (Inr result)
    with d show ?thesis by (intro decoded [OF a b Inr]) simp
  qed
qed

lemma Query_cases:
  assumes "query \<noteq> []"
  obtains
    (rejected) e where
      "NewRequest_error env ''GET''
         (URL_String env (Do_url env w chartEndpoint (Query_vals ts query))) = Some e"
      "Query env w ts query = (Returns (QueryResult_zero env) (Some (LibraryError e)), [])"
  | (failed) e where
      "Do_round_trip env w ''GET'' chartEndpoint (Query_vals ts query) = Some (Failed e)"
      "Query env w ts query =
         (Returns (QueryResult_zero env) (Some (LibraryError e)),
          [Sent (Do_request env w ''GET'' chartEndpoint (Query_vals ts query))])"
  | (failed_with) resp e where
      "Do_round_trip env w ''GET'' chartEndpoint (Query_vals ts query) = Some (FailedWith resp e)"
      "Query env w ts query =
         (Returns (QueryResult_zero env) (Some (LibraryError e)),
          [Sent (Do_request env w ''GET'' chartEndpoint (Query_vals ts query))])"
  | (status) resp where
      "Do_round_trip env w ''GET'' chartEndpoint (Query_vals ts query) = Some (Answered resp)"
      "\<not> (200 \<le> StatusCode resp \<and> StatusCode resp \<le> 299)"
      "Query env w ts query =
         (Returns (QueryResult_zero env) (Some (Errorf (status_text resp))),
          [Sent (Do_request env w ''GET'' chartEndpoint (Query_vals ts query))])"
  | (undecoded) resp msg where
      "Do_round_trip env w ''GET'' chartEndpoint (Query_vals ts query) = Some (Answered resp)"
      "200 \<le> StatusCode resp \<and> StatusCode resp \<le> 299"
      "Decode_QueryResult env (Body resp) = Inl msg"
      "Query env w ts query =
         (Returns (QueryResult_zero env) (Some (Error ErrBadResponse msg)),
          [Sent (Do_request env w ''GET'' chartEndpoint (Query_vals ts query)),
           JsonDecode resp, BodyClose resp])"
  | (decoded) resp result where
      "Do_round_trip env w ''GET'' chartEndpoint (Query_vals ts query) = Some (Answered resp)"
      "200 \<le> StatusCode resp \<and> StatusCode resp \<le> 299"
      "Decode_QueryResult env (Body resp) = Inr result"
      "Query env w ts query =
         (Returns result None,
          [Sent (Do_request env w ''GET'' chartEndpoint (Query_vals ts query)),
           JsonDecode resp, BodyClose resp])"
proof (rule Do_round_trip_cases [of env "''GET''" w chartEndpoint "Query_vals ts query"])
  fix e
  assume a: "NewRequest_error env ''GET''
     (URL_String env (Do_url env w chartEndpoint (Query_vals ts query))) = Some e"
  show thesis by (rule rejected [OF a Query_rejected [OF assms a]])
next
  fix e
  assume a: "Do_round_trip env w ''GET'' chartEndpoint (Query_vals ts query) = Some (Failed e)"
  show thesis by (rule failed [OF a Query_Failed [OF assms a]])
next
  fix resp e
  assume a: "Do_round_trip env w ''GET'' chartEndpoint (Query_vals ts query) =
    Some (FailedWith resp e)"
  show thesis by (rule failed_with [OF a Query_FailedWith [OF assms a]])
next
  fix resp
  assume a: "Do_round_trip env w ''GET'' chartEndpoint (Query_vals ts query) =
    Some (Answered resp)" and b: "\<not> (200 \<le> StatusCode resp \<and> StatusCode resp \<le> 299)"
  show thesis by (rule status [OF a b Query_status_error [OF assms a b]])
next
  fix resp
  assume a: "Do_round_trip env w ''GET'' chartEndpoint (Query_vals ts query) =
    Some (Answered resp)" and b: "200 \<le> StatusCode resp \<and> StatusCode resp \<le> 299"
  note d = Query_decoded [OF assms a b]
  show thesis
  proof (cases "Decode_QueryResult env (Body resp)")
    case (Inl msg)
    with d show ?thesis by (intro undecoded [OF a b Inl]) simp
  next
    case (Inr result)
    with d show ?thesis by (intro decoded [OF a b Inr]) simp
  qed
qed

lemma ListMetrics_never_panics: "fst (ListMetrics env w prefix) \<noteq> Panics"
  by (cases env w prefix rule: ListMetrics_cases) simp_all

lemma Query_never_panics: "fst (Query env w ts query) \<noteq> Panics"
proof (cases "query = []")
  case True
  then show ?thesis by (simp add: Query_def)
next
  case False
  then show ?thesis
    by (rule Query_cases [where env = env and w = w and ts = ts]) simp_all
qed

subsection \<open>The request\<close>

lemma Do_request_Header:
  "Header (Do_request env w verb endpoint query) = [(''Authorization'', [''Bearer '' @ token w])]"
  by (simp add: Do_request_def Header_Set_def authzHeader_def bearer_def)

lemma Do_request_eq:
  "Do_request env w verb endpoint query =
     \<lparr>Method = verb, RequestURL = URL_String env (Do_url env w endpoint query),
      Header = [(''Authorization'', [''Bearer '' @ token w])]\<rparr>"
  by (simp add: Do_request_def Header_Set_def authzHeader_def bearer_def)

lemma Sent_in_Do:
  "Sent req \<in> set (snd (Do env w verb endpoint query)) \<Longrightarrow>
   req = Do_request env w verb endpoint query"
  by (simp add: Do_trace split: if_splits)

lemma Sent_in_ListMetrics:
  "Sent req \<in> set (snd (ListMetrics env w prefix)) \<Longrightarrow>
   req = Do_request env w ''GET'' metricsListEndpoint (ListMetrics_vals prefix)"
  by (cases env w prefix rule: ListMetrics_cases) auto

lemma Sent_in_Query:
  "Sent req \<in> set (snd (Query env w ts query)) \<Longrightarrow>
   req = Do_request env w ''GET'' chartEndpoint (Query_vals ts query)"
proof (cases "query = []")
  case True
  assume "Sent req \<in> set (snd (Query env w ts query))"
  with True show ?thesis by (simp add: Query_def)
next
  case False
  assume s: "Sent req \<in> set (snd (Query env w ts query))"
  from False show ?thesis
    by (rule Query_cases [where env = env and w = w and ts = ts]) (use s in auto)
qed

subsection \<open>Errors passed on, and the life of a body\<close>



lemma body_closed_once_after_decoding:
  assumes "200 \<le> StatusCode resp \<and> StatusCode resp \<le> 299"
  shows "Do_round_trip env w ''GET'' metricsListEndpoint (ListMetrics_vals prefix) =
           Some (Answered resp) \<Longrightarrow>
         filter is_BodyClose (snd (ListMetrics env w prefix)) = [BodyClose resp]"
    and "q \<noteq> [] \<Longrightarrow>
         Do_round_trip env w ''GET'' chartEndpoint (Query_vals ts q) = Some (Answered resp) \<Longrightarrow>
         filter is_BodyClose (snd (Query env w ts q)) = [BodyClose resp]"
  using assms by (simp_all add: ListMetrics_decoded Query_decoded)

lemma body_never_closed_otherwise:
  "Do_round_trip env w ''GET'' metricsListEndpoint (ListMetrics_vals prefix) \<noteq> Some (Answered resp)
     \<or> \<not> (200 \<le> StatusCode resp \<and> StatusCode resp \<le> 299) \<Longrightarrow>
   BodyClose resp \<notin> set (snd (ListMetrics env w prefix))"
  by (cases env w prefix rule: ListMetrics_cases) auto

subsection \<open>The parameters of the two requests\<close>

lemma digit_plain: "d < 10 \<Longrightarrow> \<not> shouldEscape (digit d) \<and> digit d \<noteq> CHR '' ''"
proof -
  have "\<forall>d \<in> set [0..<10]. \<not> shouldEscape (digit d) \<and> digit d \<noteq> CHR '' ''"
    by code_simp
  then show "d < 10 \<Longrightarrow> \<not> shouldEscape (digit d) \<and> digit d \<noteq> CHR '' ''"
    by simp
qed

lemma QueryEscape_unreserved:
  "\<forall>c \<in> set s. \<not> shouldEscape c \<and> c \<noteq> CHR '' '' \<Longrightarrow> QueryEscape s = s"
  by (induction s) simp_all

lemma formatBits_plain: "c \<in> set (formatBits n) \<Longrightarrow> \<not> shouldEscape c \<and> c \<noteq> CHR '' ''"
proof (induction n rule: formatBits.induct)
  case (1 n)
  show ?case
  proof (cases "n < 10")
    case True
    with "1.prems" show ?thesis
      by (simp add: formatBits.simps [of n] digit_plain)
  next
    case False
    with "1.prems" have "c \<in> set (formatBits (n div 10)) \<or> c = digit (n mod 10)"
      by (auto simp: formatBits.simps [of n])
    then show ?thesis
      using "1.IH" [OF False] digit_plain [of "n mod 10"] by auto
  qed
qed

lemma QueryEscape_FormatInt: "QueryEscape (FormatInt i) = FormatInt i"
proof -
  have "\<not> shouldEscape CHR ''-''"
    by (simp add: shouldEscape_def)
  then have "\<forall>c \<in> set (FormatInt i). \<not> shouldEscape c \<and> c \<noteq> CHR '' ''"
    using formatBits_plain by (auto simp: FormatInt_def)
  then show ?thesis by (rule QueryEscape_unreserved)
qed

lemma ListMetrics_vals_eq: "ListMetrics_vals prefix = [(''m'', [prefix]), (''l'', [''150''])]"
  by (simp add: ListMetrics_vals_def Values_Set_def)

lemma Query_vals_eq:
  "Query_vals ts q =
     [(''q'', [q]), (''s'', [FormatInt (sint ts)]), (''g'', [''m'']), (''i'', [''false''])]"
  by (simp add: Query_vals_def Values_Set_def queryKey_def startTime_def granularity_def
        outsideSeries_def)

lemma Encode_ListMetrics_vals: "Encode (ListMetrics_vals prefix) = ''l=150&m='' @ QueryEscape prefix"
  by (simp add: ListMetrics_vals_eq Encode_def Encode_write_def Values_index_def
        shouldEscape_def inRange_def)

lemma Encode_Query_vals:
  "Encode (Query_vals ts q) =
     ''g=m&i=false&q='' @ QueryEscape q @ ''&s='' @ FormatInt (sint ts)"
  by (simp add: Query_vals_eq Encode_def Encode_write_def Values_index_def QueryEscape_FormatInt
        shouldEscape_def inRange_def)

lemma ParseQuery_ListMetrics_vals:
  "ParseQuery (Encode (ListMetrics_vals prefix)) = ([(''l'', [''150'']), (''m'', [prefix])], None)"
  by (simp add: ParseQuery_Encode_eq)
     (simp add: ListMetrics_vals_eq Values_index_def Values_Add_def)

lemma ParseQuery_Query_vals:
  "ParseQuery (Encode (Query_vals ts q)) =
     ([(''g'', [''m'']), (''i'', [''false'']), (''q'', [q]), (''s'', [FormatInt (sint ts)])], None)"
  by (simp add: ParseQuery_Encode_eq)
     (simp add: Query_vals_eq Values_index_def Values_Add_def)

lemma Do_url_RawQuery: "RawQuery (Do_url env w endpoint query) = Encode query"
  by (simp add: Do_url_def Let_def)

lemma Do_url_Path:
  "Path (Do_url env w endpoint query) = path_Join env (Path (baseURL w)) endpoint"
  by (simp add: Do_url_def Let_def)

lemma Sent_ListMetrics:
  "filter is_Sent (snd (ListMetrics env w prefix)) =
     (if NewRequest_error env ''GET''
           (URL_String env (Do_url env w metricsListEndpoint (ListMetrics_vals prefix))) = None
      then [Sent (Do_request env w ''GET'' metricsListEndpoint (ListMetrics_vals prefix))]
      else [])"
  by (cases env w prefix rule: ListMetrics_cases)
     (auto simp: Do_round_trip_def split: option.splits)

lemma Sent_Query:
  assumes "q \<noteq> []"
  shows "filter is_Sent (snd (Query env w ts q)) =
     (if NewRequest_error env ''GET''
           (URL_String env (Do_url env w chartEndpoint (Query_vals ts q))) = None
      then [Sent (Do_request env w ''GET'' chartEndpoint (Query_vals ts q))]
      else [])"
  using assms
  by (rule Query_cases [where env = env and w = w and ts = ts])
     (auto simp: Do_round_trip_def split: option.splits)

subsection \<open>Decimal strings\<close>

lemma digit_value_digit: "d < 10 \<Longrightarrow> digit_value (digit d) = d"
  by (simp add: digit_value_def digit_def)

lemma decimal_value_formatBits: "decimal_value (formatBits n) = n"
proof (induction n rule: formatBits.induct)
  case (1 n)
  show ?case
  proof (cases "n < 10")
    case True
    then show ?thesis
      by (simp add: formatBits.simps [of n] decimal_value_def digit_value_digit)
  next
    case False
    have "decimal_value (formatBits n) =
        10 * decimal_value (formatBits (n div 10)) + digit_value (digit (n mod 10))"
      using False by (simp add: formatBits.simps [of n] decimal_value_def)
    also have "\<dots> = 10 * (n div 10) + n mod 10"
      using "1.IH" [OF False] by (simp add: digit_value_digit)
    finally show ?thesis by simp
  qed
qed

lemma formatBits_no_sign: "formatBits n = c # ds \<Longrightarrow> c \<noteq> CHR ''-''"
proof
  assume eq: "formatBits n = c # ds" and c: "c = CHR ''-''"
  then have "CHR ''-'' \<in> set (formatBits n)" by simp
  moreover have "x \<in> set (formatBits m) \<Longrightarrow> \<exists>d<10. x = digit d" for x m
  proof (induction m rule: formatBits.induct)
    case (1 m)
    show ?case
    proof (cases "m < 10")
      case True
      with "1.prems" show ?thesis
        by (auto simp: formatBits.simps [of m])
    next
      case False
      with "1.prems" have "x \<in> set (formatBits (m div 10)) \<or> x = digit (m mod 10)"
        by (auto simp: formatBits.simps [of m])
      then show ?thesis
      proof
        assume "x \<in> set (formatBits (m div 10))"
        then show ?thesis by (rule "1.IH" [OF False])
      next
        assume "x = digit (m mod 10)"
        moreover have "m mod 10 < 10" by simp
        ultimately show ?thesis by blast
      qed
    qed
  qed
  ultimately obtain d where d: "d < 10" "CHR ''-'' = digit d" by blast
  have "\<forall>d \<in> set [0..<10]. digit d \<noteq> CHR ''-''"
    by code_simp
  with d(1) have "digit d \<noteq> CHR ''-''" by simp
  with d(2) show False by simp
qed

lemma decimal_int_FormatInt: "decimal_int (FormatInt i) = i"
proof (cases "i < 0")
  case True
  then show ?thesis
    by (simp add: decimal_int_def FormatInt_def decimal_value_formatBits)
next
  case False
  show ?thesis
  proof (cases "formatBits (nat i)")
    case Nil
    then have "decimal_value (formatBits (nat i)) = 0"
      by (simp add: decimal_value_def)
    then have "nat i = 0"
      by (simp only: decimal_value_formatBits)
    moreover have "FormatInt i = []"
      using False Nil by (simp add: FormatInt_def)
    ultimately show ?thesis
      using False by (simp add: decimal_int_def)
  next
    case (Cons c ds)
    then have "c \<noteq> CHR ''-''" by (rule formatBits_no_sign)
    moreover have "decimal_value (c # ds) = nat i"
      using decimal_value_formatBits [of "nat i"] Cons by simp
    ultimately show ?thesis
      using False by (simp add: decimal_int_def FormatInt_def Cons)
  qed
qed

section \<open>The claims\<close>

text \<open>
  C1. For every timestamp, \<open>Query\<close> with the empty query expression returns the error
  of kind \<open>ErrBadData\<close> (the specification's BadRequest) with the message
  \<open>empty query string\<close>, together with the zero result, and does nothing else: no
  request is handed to the HTTP client.
\<close>

theorem Query_empty_query:
  "Query env w ts [] =
     (Returns (QueryResult_zero env) (Some (Error ErrBadData ''empty query string'')), [])"
  by (simp add: Query_def)

text \<open>
  C2. Every request that \<open>Do\<close> hands to the HTTP client, and so every request of
  \<open>ListMetrics\<close> and of \<open>Query\<close>, has the header \<open>Authorization\<close> with the one
  value \<open>Bearer \<close> followed by the token the client was made with.
\<close>

theorem authorization_on_every_request:
  "(Sent req \<in> set (snd (Do env (NewWavefrontClient u tok) verb endpoint query)) \<longrightarrow>
      Header_Values (Header req) ''Authorization'' = [''Bearer '' @ tok]) \<and>
   (Sent req \<in> set (snd (ListMetrics env (NewWavefrontClient u tok) prefix)) \<longrightarrow>
      Header_Values (Header req) ''Authorization'' = [''Bearer '' @ tok]) \<and>
   (Sent req \<in> set (snd (Query env (NewWavefrontClient u tok) ts q)) \<longrightarrow>
      Header_Values (Header req) ''Authorization'' = [''Bearer '' @ tok])"
proof -
  have "Header_Values (Header (Do_request env (NewWavefrontClient u tok) verb' endpoint' query'))
          ''Authorization'' = [''Bearer '' @ tok]" for verb' endpoint' query'
    by (simp add: Do_request_Header Header_Values_def NewWavefrontClient_def)
  then show ?thesis
    by (auto dest!: Sent_in_Do Sent_in_ListMetrics Sent_in_Query)
qed

theorem authorization_on_every_request_witness:
  "Sent list_request \<in>
     set (snd (ListMetrics (example_env (Answered (ok_response metrics_body))) example_client ''cpu.'')) \<and>
   Header_Values (Header list_request) ''Authorization'' = [''Bearer s3cr3t'']"
proof -
  have "Sent list_request \<in>
     set (snd (ListMetrics (example_env (Answered (ok_response metrics_body)))
       (NewWavefrontClient
          \<lparr>Scheme = ''https'', Host = ''example.wavefront.com'', Path = [], RawQuery = []\<rparr>
          ''s3cr3t'') ''cpu.''))"
    by code_simp
  then show ?thesis
    using authorization_on_every_request
      [of list_request "example_env (Answered (ok_response metrics_body))"
          "\<lparr>Scheme = ''https'', Host = ''example.wavefront.com'', Path = [], RawQuery = []\<rparr>"
          "''s3cr3t''" "''GET''" metricsListEndpoint "[]" "''cpu.''" 0 "[]"]
    by (simp add: example_client_def)
qed






text \<open>
  C5. A response with status 500 reaches \<open>ListMetrics\<close> and \<open>Query\<close> with its body
  open, and each returns the status error having sent the request and nothing more:
  the trace has no call of \<open>Body.Close\<close>. The deferred close is registered only after
  the check of the error, so only a decoded body is closed, once
  (\<open>body_closed_once_after_decoding\<close>).
\<close>

theorem body_left_open_after_status_error:
  "ListMetrics (example_env (Answered error_response)) example_client ''cpu.'' =
     (Returns [] (Some (Errorf ''error status=500 Internal Server Error code=500'')),
      [Sent list_request]) \<and>
   filter is_BodyClose
     (snd (ListMetrics (example_env (Answered error_response)) example_client ''cpu.'')) = [] \<and>
   Query (example_env (Answered error_response)) example_client 60 ''ts(cpu.load)'' =
     (Returns [] (Some (Errorf ''error status=500 Internal Server Error code=500'')),
      [Sent query_request]) \<and>
   filter is_BodyClose
     (snd (Query (example_env (Answered error_response)) example_client 60 ''ts(cpu.load)'')) = []"
  by code_simp

text \<open>
  C6. For every prefix, the empty one too, \<open>ListMetrics\<close> builds the URL whose path is
  the base path joined with \<open>/chart/metrics/list\<close> and whose query is
  \<open>l=150&m=\<close> followed by the escaped prefix; parsed as a form, that query has the two
  parameters \<open>l\<close> = \<open>150\<close> and \<open>m\<close> = the prefix. The requests it hands to the
  HTTP client are: one \<open>GET\<close> of that URL with the authorization header, if
  \<open>http.NewRequest\<close> takes the URL, and none otherwise.
\<close>

theorem ListMetrics_request:
  "(let u = Do_url env w metricsListEndpoint (ListMetrics_vals prefix);
        req = \<lparr>Method = ''GET'', RequestURL = URL_String env u,
               Header = [(''Authorization'', [''Bearer '' @ token w])]\<rparr>
    in Path u = path_Join env (Path (baseURL w)) ''/chart/metrics/list'' \<and>
       RawQuery u = ''l=150&m='' @ QueryEscape prefix \<and>
       ParseQuery (RawQuery u) = ([(''l'', [''150'']), (''m'', [prefix])], None) \<and>
       filter is_Sent (snd (ListMetrics env w prefix)) =
         (if NewRequest_error env ''GET'' (URL_String env u) = None then [Sent req] else []))"
proof -
  let ?u = "Do_url env w metricsListEndpoint (ListMetrics_vals prefix)"
  have p: "Path ?u = path_Join env (Path (baseURL w)) ''/chart/metrics/list''"
    by (simp add: Do_url_Path metricsListEndpoint_def)
  have r: "RawQuery ?u = ''l=150&m='' @ QueryEscape prefix"
    by (simp only: Do_url_RawQuery Encode_ListMetrics_vals)
  have d: "ParseQuery (RawQuery ?u) = ([(''l'', [''150'']), (''m'', [prefix])], None)"
    by (simp only: Do_url_RawQuery ParseQuery_ListMetrics_vals)
  have s: "filter is_Sent (snd (ListMetrics env w prefix)) =
      (if NewRequest_error env ''GET'' (URL_String env ?u) = None
       then [Sent \<lparr>Method = ''GET'', RequestURL = URL_String env ?u,
                     Header = [(''Authorization'', [''Bearer '' @ token w])]\<rparr>]
       else [])"
    by (simp only: Sent_ListMetrics Do_request_eq)
  show ?thesis
    unfolding Let_def by (intro conjI p r d s)
qed

theorem ListMetrics_request_witness:
  "NewRequest_error (example_env (Answered (ok_response metrics_body))) ''GET''
     ''https://example.wavefront.com/chart/metrics/list?l=150&m=cpu.'' = None \<and>
   filter is_Sent
     (snd (ListMetrics (example_env (Answered (ok_response metrics_body))) example_client ''cpu.'')) =
     [Sent list_request] \<and>
   ParseQuery ''l=150&m=cpu.'' = ([(''l'', [''150'']), (''m'', [''cpu.''])], None)"
proof -
  let ?env = "example_env (Answered (ok_response metrics_body)) :: (string \<times> int) list env"
  have url: "URL_String ?env (Do_url ?env example_client metricsListEndpoint (ListMetrics_vals ''cpu.''))
      = ''https://example.wavefront.com/chart/metrics/list?l=150&m=cpu.''"
    by code_simp
  have raw: "RawQuery (Do_url ?env example_client metricsListEndpoint (ListMetrics_vals ''cpu.''))
      = ''l=150&m=cpu.''"
    by code_simp
  have ok: "NewRequest_error ?env ''GET''
      ''https://example.wavefront.com/chart/metrics/list?l=150&m=cpu.'' = None"
    by (simp add: example_env_def)
  have tok: "token example_client = ''s3cr3t''"
    by (simp add: example_client_def NewWavefrontClient_def)
  note inst = ListMetrics_request [of ?env example_client "''cpu.''", unfolded Let_def url raw tok]
  show ?thesis
    using inst [THEN conjunct2, THEN conjunct2] ok by (simp add: list_request_def)
qed

text \<open>
  C7. For every timestamp and every query expression that is not empty, \<open>Query\<close> builds
  the URL whose path is the base path joined with \<open>/api/v2/chart/api\<close> and whose query
  is \<open>g=m&i=false&q=\<close>, the escaped expression, \<open>&s=\<close> and the timestamp in decimal
  (\<open>decimal_int_FormatInt\<close>: read back, the digits give the number); parsed as a form,
  it has the four parameters \<open>g\<close> = \<open>m\<close>, \<open>i\<close> = \<open>false\<close>, \<open>q\<close> = the
  expression and \<open>s\<close> = the timestamp. The requests it hands to the HTTP client are:
  one \<open>GET\<close> of that URL with the authorization header, if \<open>http.NewRequest\<close>
  takes the URL, and none otherwise.
\<close>

theorem Query_request:
  "q \<noteq> [] \<longrightarrow>
   (let u = Do_url env w chartEndpoint (Query_vals ts q);
        req = \<lparr>Method = ''GET'', RequestURL = URL_String env u,
               Header = [(''Authorization'', [''Bearer '' @ token w])]\<rparr>
    in Path u = path_Join env (Path (baseURL w)) ''/api/v2/chart/api'' \<and>
       RawQuery u = ''g=m&i=false&q='' @ QueryEscape q @ ''&s='' @ FormatInt (sint ts) \<and>
       ParseQuery (RawQuery u) =
         ([(''g'', [''m'']), (''i'', [''false'']), (''q'', [q]), (''s'', [FormatInt (sint ts)])],
          None) \<and>
       filter is_Sent (snd (Query env w ts q)) =
         (if NewRequest_error env ''GET'' (URL_String env u) = None then [Sent req] else []))"
proof
  assume ne: "q \<noteq> []"
  let ?u = "Do_url env w chartEndpoint (Query_vals ts q)"
  have p: "Path ?u = path_Join env (Path (baseURL w)) ''/api/v2/chart/api''"
    by (simp add: Do_url_Path chartEndpoint_def)
  have r: "RawQuery ?u = ''g=m&i=false&q='' @ QueryEscape q @ ''&s='' @ FormatInt (sint ts)"
    by (simp only: Do_url_RawQuery Encode_Query_vals)
  have d: "ParseQuery (RawQuery ?u) =
      ([(''g'', [''m'']), (''i'', [''false'']), (''q'', [q]), (''s'', [FormatInt (sint ts)])], None)"
    by (simp only: Do_url_RawQuery ParseQuery_Query_vals)
  have s: "filter is_Sent (snd (Query env w ts q)) =
      (if NewRequest_error env ''GET'' (URL_String env ?u) = None
       then [Sent \<lparr>Method = ''GET'', RequestURL = URL_String env ?u,
                     Header = [(''Authorization'', [''Bearer '' @ token w])]\<rparr>]
       else [])"
    by (simp only: Sent_Query [OF ne] Do_request_eq)
  show "let u = Do_url env w chartEndpoint (Query_vals ts q);
        req = \<lparr>Method = ''GET'', RequestURL = URL_String env u,
               Header = [(''Authorization'', [''Bearer '' @ token w])]\<rparr>
    in Path u = path_Join env (Path (baseURL w)) ''/api/v2/chart/api'' \<and>
       RawQuery u = ''g=m&i=false&q='' @ QueryEscape q @ ''&s='' @ FormatInt (sint ts) \<and>
       ParseQuery (RawQuery u) =
         ([(''g'', [''m'']), (''i'', [''false'']), (''q'', [q]), (''s'', [FormatInt (sint ts)])],
          None) \<and>
       filter is_Sent (snd (Query env w ts q)) =
         (if NewRequest_error env ''GET'' (URL_String env u) = None then [Sent req] else [])"
    unfolding Let_def by (intro conjI p r d s)
qed

theorem Query_request_witness:
  "''ts(cpu.load)'' \<noteq> [] \<and>
   filter is_Sent
     (snd (Query (example_env (Answered (ok_response ''[]''))) example_client 60 ''ts(cpu.load)'')) =
     [Sent query_request] \<and>
   ParseQuery ''g=m&i=false&q=ts%28cpu.load%29&s=60'' =
     ([(''g'', [''m'']), (''i'', [''false'']), (''q'', [''ts(cpu.load)'']), (''s'', [''60''])], None)"
proof -
  let ?env = "example_env (Answered (ok_response ''[]'')) :: (string \<times> int) list env"
  have url: "URL_String ?env (Do_url ?env example_client chartEndpoint (Query_vals 60 ''ts(cpu.load)''))
      = ''https://example.wavefront.com/api/v2/chart/api?g=m&i=false&q=ts%28cpu.load%29&s=60''"
    by code_simp
  have raw: "RawQuery (Do_url ?env example_client chartEndpoint (Query_vals 60 ''ts(cpu.load)''))
      = ''g=m&i=false&q=ts%28cpu.load%29&s=60''"
    by code_simp
  have ts: "FormatInt (sint (60 :: 64 word)) = ''60''"
    by code_simp
  have ok: "NewRequest_error ?env ''GET''
      ''https://example.wavefront.com/api/v2/chart/api?g=m&i=false&q=ts%28cpu.load%29&s=60'' = None"
    by (simp add: example_env_def)
  have tok: "token example_client = ''s3cr3t''"
    by (simp add: example_client_def NewWavefrontClient_def)
  have ne: "''ts(cpu.load)'' \<noteq> []"
    by simp
  note inst = Query_request [of "''ts(cpu.load)''" ?env example_client 60, unfolded Let_def url raw tok ts]
  show ?thesis
    using inst [THEN mp, OF ne, THEN conjunct2, THEN conjunct2] ok
    by (simp add: query_request_def)
qed

text \<open>
  C8. When the response has a status code in 200..299, \<open>ListMetrics\<close> and \<open>Query\<close>
  hand its body to the JSON decoder. If the decoder fails, they return the error of kind
  \<open>ErrBadResponse\<close> whose message is the text of the decoder's error; if it succeeds,
  \<open>ListMetrics\<close> returns the field \<open>Metrics\<close> of the decoded value as it is, in its
  order and with its repetitions, and \<open>Query\<close> the decoded value.
\<close>

theorem decoding_a_2xx_body:
  "200 \<le> StatusCode resp \<and> StatusCode resp \<le> 299 \<longrightarrow>
   (Do_round_trip env w ''GET'' metricsListEndpoint (ListMetrics_vals prefix) = Some (Answered resp) \<longrightarrow>
      fst (ListMetrics env w prefix) =
        (case Decode_ListResult env (Body resp) of
           Inl msg \<Rightarrow> Returns [] (Some (Error ErrBadResponse msg))
         | Inr result \<Rightarrow> Returns (Metrics result) None)) \<and>
   (q \<noteq> [] \<and> Do_round_trip env w ''GET'' chartEndpoint (Query_vals ts q) = Some (Answered resp) \<longrightarrow>
      fst (Query env w ts q) =
        (case Decode_QueryResult env (Body resp) of
           Inl msg \<Rightarrow> Returns (QueryResult_zero env) (Some (Error ErrBadResponse msg))
         | Inr result \<Rightarrow> Returns result None))"
  using ListMetrics_decoded [of env w prefix resp] Query_decoded [of q env w ts resp]
  by simp

theorem decoding_a_2xx_body_witness:
  "200 \<le> StatusCode (ok_response metrics_body) \<and> StatusCode (ok_response metrics_body) \<le> 299 \<and>
   Do_round_trip (example_env (Answered (ok_response metrics_body))) example_client ''GET''
     metricsListEndpoint (ListMetrics_vals ''cpu.'') = Some (Answered (ok_response metrics_body)) \<and>
   Decode_ListResult (example_env (Answered (ok_response metrics_body)))
     (Body (ok_response metrics_body)) = Inr \<lparr>Metrics = [''cpu.load'', ''cpu.idle'']\<rparr> \<and>
   fst (ListMetrics (example_env (Answered (ok_response metrics_body))) example_client ''cpu.'') =
     Returns [''cpu.load'', ''cpu.idle''] None \<and>
   Do_round_trip (example_env (Answered (ok_response metrics_body))) example_client ''GET''
     chartEndpoint (Query_vals 60 ''ts(cpu.load)'') = Some (Answered (ok_response metrics_body)) \<and>
   fst (Query (example_env (Answered (ok_response metrics_body))) example_client 60 ''ts(cpu.load)'') =
     Returns [] (Some (Error ErrBadResponse ''unexpected end of JSON input''))"
proof -
  let ?env = "example_env (Answered (ok_response metrics_body)) :: (string \<times> int) list env"
  have code: "200 \<le> StatusCode (ok_response metrics_body) \<and>
      StatusCode (ok_response metrics_body) \<le> 299"
    by (simp add: ok_response_def)
  have list: "Do_round_trip ?env example_client ''GET'' metricsListEndpoint
      (ListMetrics_vals ''cpu.'') = Some (Answered (ok_response metrics_body))"
    by (simp add: Do_round_trip_def example_env_def)
  have query: "Do_round_trip ?env example_client ''GET'' chartEndpoint
      (Query_vals 60 ''ts(cpu.load)'') = Some (Answered (ok_response metrics_body))"
    by (simp add: Do_round_trip_def example_env_def)
  have dec: "Decode_ListResult ?env (Body (ok_response metrics_body)) =
      Inr \<lparr>Metrics = [''cpu.load'', ''cpu.idle'']\<rparr>"
    by (simp add: example_env_def ok_response_def)
  have dec': "Decode_QueryResult ?env (Body (ok_response metrics_body)) =
      Inl ''unexpected end of JSON input''"
    by code_simp
  have zero: "QueryResult_zero ?env = []"
    by (simp add: example_env_def)
  have ne: "''ts(cpu.load)'' \<noteq> []"
    by simp
  note inst = decoding_a_2xx_body
    [of "ok_response metrics_body" ?env example_client "''cpu.''" "''ts(cpu.load)''" 60,
     THEN mp, OF code]
  from inst [THEN conjunct1, THEN mp, OF list] dec
  have r1: "fst (ListMetrics ?env example_client ''cpu.'') = Returns [''cpu.load'', ''cpu.idle''] None"
    by simp
  from inst [THEN conjunct2, THEN mp, OF conjI [OF ne query]] dec' zero
  have r2: "fst (Query ?env example_client 60 ''ts(cpu.load)'') =
      Returns [] (Some (Error ErrBadResponse ''unexpected end of JSON input''))"
    by simp
  from code list query dec r1 r2 show ?thesis
    by (intro conjI) simp_all
qed

text \<open>
  C9. Unescaping an escaped value gives the value back, whatever bytes it has; and for
  every set of parameters \<open>Do\<close> is called with (one entry for a key, as in a Go map),
  parsing the query of the URL it builds as a form gives no error and, under every key,
  the values that went in.
\<close>

theorem query_values_round_trip:
  "QueryUnescape (QueryEscape val) = Inr val \<and>
   (distinct (map fst query) \<longrightarrow>
      snd (ParseQuery (RawQuery (Do_url env w endpoint query))) = None \<and>
      Values_index (fst (ParseQuery (RawQuery (Do_url env w endpoint query)))) key =
        Values_index query key)"
  by (simp add: QueryUnescape_QueryEscape Do_url_RawQuery ParseQuery_Encode)

theorem query_values_round_trip_witness:
  "QueryEscape ''a b&c=d'' = ''a+b%26c%3Dd'' \<and>
   QueryUnescape ''a+b%26c%3Dd'' = Inr ''a b&c=d'' \<and>
   distinct (map fst [(''q'', [''a b&c=d'']), (''s'', [''60''])]) \<and>
   RawQuery (Do_url (example_env (Failed [])) example_client chartEndpoint
     [(''q'', [''a b&c=d'']), (''s'', [''60''])]) = ''q=a+b%26c%3Dd&s=60'' \<and>
   Values_index (fst (ParseQuery ''q=a+b%26c%3Dd&s=60'')) ''q'' = [''a b&c=d'']"
proof -
  let ?env = "example_env (Failed []) :: (string \<times> int) list env"
  let ?query = "[(''q'', [''a b&c=d'']), (''s'', [''60''])]"
  have esc: "QueryEscape ''a b&c=d'' = ''a+b%26c%3Dd''"
    by code_simp
  have d: "distinct (map fst ?query)"
    by simp
  have raw: "RawQuery (Do_url ?env example_client chartEndpoint ?query) = ''q=a+b%26c%3Dd&s=60''"
    by code_simp
  have idx: "Values_index ?query ''q'' = [''a b&c=d'']"
    by (simp add: Values_index_def)
  note inst = query_values_round_trip
    [of "''a b&c=d''" ?query ?env example_client chartEndpoint "''q''", unfolded esc raw idx]
  from inst [THEN conjunct1] inst [THEN conjunct2, THEN mp, OF d, THEN conjunct2] esc d raw
  show ?thesis
    by (intro conjI) simp_all
qed

text \<open>
  C10. Whenever \<open>ListMetrics\<close> returns an error its list is nil, and whenever
  \<open>Query\<close> returns an error its result is the zero \<open>QueryResult\<close>.
\<close>

theorem error_returns_carry_no_result:
  "(fst (ListMetrics env w prefix) = Returns ms (Some e) \<longrightarrow> ms = []) \<and>
   (fst (Query env w ts q) = Returns r (Some e) \<longrightarrow> r = QueryResult_zero env)"
proof (intro conjI impI)
  assume "fst (ListMetrics env w prefix) = Returns ms (Some e)"
  then show "ms = []"
    by (cases env w prefix rule: ListMetrics_cases) auto
next
  assume ret: "fst (Query env w ts q) = Returns r (Some e)"
  show "r = QueryResult_zero env"
  proof (cases "q = []")
    case True
    with ret show ?thesis by (simp add: Query_def)
  next
    case False
    then show ?thesis
      by (rule Query_cases [where env = env and w = w and ts = ts]) (use ret in auto)
  qed
qed

theorem error_returns_carry_no_result_witness:
  "fst (ListMetrics (example_env (Answered (ok_response ''{\"metrics\":[\"cpu.lo''))) example_client
          ''cpu.'') = Returns [] (Some (Error ErrBadResponse ''unexpected end of JSON input'')) \<and>
   fst (Query (example_env (Answered error_response)) example_client 60 ''ts(cpu.load)'') =
     Returns (QueryResult_zero (example_env (Answered error_response)))
       (Some (Errorf ''error status=500 Internal Server Error code=500''))"
proof -
  let ?env = "example_env (Answered (ok_response ''{\"metrics\":[\"cpu.lo'')) :: (string \<times> int) list env"
  let ?env' = "example_env (Answered error_response) :: (string \<times> int) list env"
  have list: "fst (ListMetrics ?env example_client ''cpu.'') =
      Returns [] (Some (Error ErrBadResponse ''unexpected end of JSON input''))"
    by code_simp
  have query: "fst (Query ?env' example_client 60 ''ts(cpu.load)'') =
      Returns [] (Some (Errorf ''error status=500 Internal Server Error code=500''))"
    by code_simp
  from error_returns_carry_no_result
    [of ?env' example_client "''cpu.''" "[]"
        "Errorf ''error status=500 Internal Server Error code=500''" 60 "''ts(cpu.load)''" "[]"]
    query
  have "QueryResult_zero ?env' = []"
    by simp
  with list query show ?thesis by simp
qed

end
